theory Spec2Isabelle
  imports Main "HOL-Library.AList" "HOL-Library.Sublist"
begin

section \<open>Product configurator: data model of \<^verbatim>\<open>src/server.js\<close>\<close>

text \<open>
  The server keeps one process-wide object \<^verbatim>\<open>templates\<close> and serves five POST routes.
  Each route handler is embedded as a function from the store and the request to the
  response (and the new store, for the three routes that write).

  Conventions of the embedding:
  \<^item> A JavaScript object is the association list of its own properties in the order of
    their creation, each key once; \<^verbatim>\<open>obj[k] = v\<close> is \<open>AList.update k v obj\<close>, which keeps the
    position of a key already present and appends a new one. \<^verbatim>\<open>Object.entries\<close> and
    \<^verbatim>\<open>Object.keys\<close> do not enumerate in that order: \<open>own_entries\<close> gives theirs.
  \<^item> The objects of a request and the objects the handlers create are plain objects: a
    property that is not their own is looked up in \<^verbatim>\<open>Object.prototype\<close>, whose members are
    listed in \<open>object_prototype_members\<close>. The built-in objects are those of ECMAScript 2024,
    as they are when the server starts. Route 4 can write \<^verbatim>\<open>base_price\<close> onto one of them
    (see \<open>setBasePrice\<close>) and route 5 can replace the prototype of a template's \<^verbatim>\<open>options\<close>
    (see \<open>addOptions\<close>); what later lookups find through such a changed prototype is not
    followed.
  \<^item> Request fields have the types the routes expect (strings, numbers, objects); a
    missing field is \<open>None\<close>. A number is a finite double with an integer value, given by
    that value; addition rounds as doubles do.
  \<^item> A response is the status code passed to \<^verbatim>\<open>res.status\<close> with the JSON value that
    \<^verbatim>\<open>send\<close> writes; an exception that leaves a handler is answered by Express with
    status 500.
\<close>

type_synonym 'v js_object = "(string \<times> 'v) list"

subsection \<open>Inherited properties\<close>

text \<open>
  The property names that every plain object inherits from \<^verbatim>\<open>Object.prototype\<close>. Each of them
  is a function, but \<^verbatim>\<open>__proto__\<close>, which reads as the prototype of the object.
\<close>

definition object_prototype_members :: "string list" where
  "object_prototype_members =
     [''constructor'', ''__defineGetter__'', ''__defineSetter__'', ''hasOwnProperty'',
      ''__lookupGetter__'', ''__lookupSetter__'', ''isPrototypeOf'', ''propertyIsEnumerable'',
      ''toString'', ''valueOf'', ''__proto__'', ''toLocaleString'']"

text \<open>The function properties of the constructor \<^verbatim>\<open>Object\<close>.\<close>

definition object_static_members :: "string list" where
  "object_static_members =
     [''assign'', ''create'', ''defineProperties'', ''defineProperty'', ''entries'', ''freeze'',
      ''fromEntries'', ''getOwnPropertyDescriptor'', ''getOwnPropertyDescriptors'',
      ''getOwnPropertyNames'', ''getOwnPropertySymbols'', ''getPrototypeOf'', ''groupBy'',
      ''hasOwn'', ''is'', ''isExtensible'', ''isFrozen'', ''isSealed'', ''keys'',
      ''preventExtensions'', ''seal'', ''setPrototypeOf'', ''values'']"

subsection \<open>Enumeration order of own properties\<close>

text \<open>
  \<^verbatim>\<open>Object.entries\<close> and \<^verbatim>\<open>Object.keys\<close> list the keys that are array indices first, in
  ascending numeric order, and then the other keys in the order of their creation. An array
  index is the canonical decimal numeral of an integer from 0 to \<open>2\<^sup>3\<^sup>2 - 2\<close>.
\<close>

definition is_digit :: "char \<Rightarrow> bool" where
  "is_digit c = (48 \<le> (of_char c :: int) \<and> (of_char c :: int) \<le> 57)"

definition decimal :: "string \<Rightarrow> int" where
  "decimal s = foldl (\<lambda>n c. 10 * n + (of_char c - 48)) 0 s"

definition array_index :: "string \<Rightarrow> int option" where
  "array_index s =
     (if s \<noteq> [] \<and> list_all is_digit s \<and> (s = ''0'' \<or> hd s \<noteq> CHR ''0'')
         \<and> decimal s < 2 ^ 32 - 1
      then Some (decimal s)
      else None)"

definition own_entries :: "'v js_object \<Rightarrow> 'v js_object" where
  "own_entries obj =
     sort_key (\<lambda>e. case array_index (fst e) of None \<Rightarrow> 0 | Some n \<Rightarrow> n)
       (filter (\<lambda>e. array_index (fst e) \<noteq> None) obj)
     @ filter (\<lambda>e. array_index (fst e) = None) obj"

subsection \<open>Templates\<close>

record compatibility_rule =
  rule_type :: string
  primary_choice_str_id :: string
  secondary_choice_str_id :: string

record product_option =
  name :: string
  price_delta :: int

text \<open>The objects built by the \<^verbatim>\<open>.map\<close> of lines 69-73: an option with its choice identifier.\<close>

record available_option = product_option +
  choice_str_id :: string

record template =
  compatibilityRules :: "compatibility_rule list"
  options :: "product_option js_object js_object"
  base_price :: int

text \<open>
  The own properties of \<^verbatim>\<open>templates\<close> (line 8), which is never enumerated. The handlers
  create a template only under a name that \<^verbatim>\<open>templates[id]\<close> does not find, so the store of
  a running server has no entry under a member of \<^verbatim>\<open>Object.prototype\<close>.
\<close>

type_synonym templates = "string \<rightharpoonup> template"

text \<open>
  \<^verbatim>\<open>TypeError\<close> stands for the answer of Express to a \<^verbatim>\<open>TypeError\<close> thrown in a handler.
  \<^verbatim>\<open>ValidNull\<close> is the valid answer whose total is \<^verbatim>\<open>NaN\<close> or infinite: JSON writes
  \<^verbatim>\<open>total_price: null\<close>.
\<close>

datatype response_body =
    Error string
  | Message string
  | AvailableOptions "available_option list"
  | Valid int "string js_object"
  | ValidNull "string js_object"
  | Invalid "string list"
  | TypeError

type_synonym response = "nat \<times> response_body"

subsection \<open>Truthiness of request fields\<close>

text \<open>
  \<^verbatim>\<open>!body[field]\<close> holds for a missing field and for a falsy value: the empty string and
  the number 0 among the values a field can take here. Every object is truthy, the empty
  object included.
\<close>

fun truthy_str :: "string option \<Rightarrow> bool" where
  "truthy_str None = False"
| "truthy_str (Some s) = (s \<noteq> [])"

fun truthy_num :: "int option \<Rightarrow> bool" where
  "truthy_num None = False"
| "truthy_num (Some n) = (n \<noteq> 0)"

fun truthy_obj :: "'a js_object option \<Rightarrow> bool" where
  "truthy_obj None = False"
| "truthy_obj (Some obj) = True"

text \<open>\<^verbatim>\<open>missingFields.join(', ')\<close>\<close>

fun join :: "string list \<Rightarrow> string" where
  "join [] = []"
| "join [x] = x"
| "join (x # y # ys) = x @ '', '' @ join (y # ys)"

text \<open>
  Lines 11-17. The body is given by the truthiness of each of its fields:
  \<open>body field\<close> is the truth value of \<^verbatim>\<open>body[field]\<close>.
\<close>

definition validateRequestBody :: "string list \<Rightarrow> (string \<Rightarrow> bool) \<Rightarrow> string option" where
  "validateRequestBody requiredFields body =
     (let missingFields = filter (\<lambda>field. \<not> body field) requiredFields
      in if length missingFields > 0
         then Some (''Missing required fields: '' @ join missingFields)
         else None)"

text \<open>The body of a request, as the truthiness of its fields: a field not listed is missing.\<close>

definition body_of :: "(string \<times> bool) list \<Rightarrow> string \<Rightarrow> bool" where
  "body_of fs field = (case map_of fs field of None \<Rightarrow> False | Some b \<Rightarrow> b)"

subsection \<open>Looking a template up\<close>

text \<open>
  \<^verbatim>\<open>templates[template_str_id]\<close> (lines 29, 52, 88, 133, 152): the template stored under the
  name; or, for a name that \<^verbatim>\<open>Object.prototype\<close> defines, the inherited member, which is
  truthy and has neither \<^verbatim>\<open>options\<close> nor \<^verbatim>\<open>compatibilityRules\<close>; or \<^verbatim>\<open>undefined\<close>.
\<close>

datatype stored = Own template | Inherited | Missing

definition lookup_template :: "templates \<Rightarrow> string \<Rightarrow> stored" where
  "lookup_template ts template_str_id =
     (case ts template_str_id of
        Some t \<Rightarrow> Own t
      | None \<Rightarrow>
          if template_str_id \<in> set object_prototype_members then Inherited else Missing)"

text \<open>
  Lines 29-31, 133-135 and 152-154: a template is created when \<^verbatim>\<open>templates[id]\<close> is
  \<^verbatim>\<open>undefined\<close>. \<open>ensured ts id\<close> is \<^verbatim>\<open>templates[id]\<close> after these lines when the lookup
  finds a template or nothing; the handlers treat the inherited members apart.
\<close>

definition shell :: template where
  "shell = \<lparr>compatibilityRules = [], options = [], base_price = 0\<rparr>"

definition ensured :: "templates \<Rightarrow> string \<Rightarrow> template" where
  "ensured ts template_str_id =
     (case ts template_str_id of None \<Rightarrow> shell | Some t \<Rightarrow> t)"

subsection \<open>Rule evaluation\<close>

text \<open>\<^verbatim>\<open>selections[id] === id\<close>: the choice is selected.\<close>

definition selected :: "string js_object \<Rightarrow> string \<Rightarrow> bool" where
  "selected selections choice = (map_of selections choice = Some choice)"

text \<open>Lines 59-67: the predicate given to \<^verbatim>\<open>every\<close>.\<close>

definition rule_satisfied :: "string js_object \<Rightarrow> compatibility_rule \<Rightarrow> bool" where
  "rule_satisfied currentSelections rule =
     (if rule_type rule = ''REQUIRES'' \<and> selected currentSelections (primary_choice_str_id rule)
      then selected currentSelections (secondary_choice_str_id rule)
      else if rule_type rule = ''INCOMPATIBLE_WITH''
              \<and> selected currentSelections (primary_choice_str_id rule)
      then \<not> selected currentSelections (secondary_choice_str_id rule)
      else True)"

subsection \<open>Route 2: available options of a category\<close>

text \<open>Lines 69-73: the callback of \<^verbatim>\<open>.map\<close>.\<close>

definition option_summary :: "string \<times> product_option \<Rightarrow> available_option" where
  "option_summary entry =
     \<lparr>name = name (snd entry), price_delta = price_delta (snd entry), choice_str_id = fst entry\<rparr>"

text \<open>
  \<^verbatim>\<open>Object.entries(template.options[target_category_str_id] || {})\<close>. For a name that the
  template lacks and \<^verbatim>\<open>Object.prototype\<close> defines, the inherited member is truthy and has no
  enumerable property of its own: the entries are none, as for \<^verbatim>\<open>{}\<close>.
\<close>

definition category_entries :: "template \<Rightarrow> string \<Rightarrow> product_option js_object" where
  "category_entries t target_category_str_id =
     own_entries
       (case map_of (options t) target_category_str_id of
          None \<Rightarrow> []
        | Some category \<Rightarrow> category)"

text \<open>Lines 57-73: the filter's callback receives the entry and evaluates every rule.\<close>

definition availableOptions ::
  "template \<Rightarrow> string \<Rightarrow> string js_object \<Rightarrow> available_option list" where
  "availableOptions t target_category_str_id currentSelections =
     map option_summary
       (filter (\<lambda>entry. list_all (rule_satisfied currentSelections) (compatibilityRules t))
          (category_entries t target_category_str_id))"

text \<open>
  Lines 43-76. For an inherited member line 53 does not answer, and line 57 reads a property
  of its \<^verbatim>\<open>options\<close>, which is \<^verbatim>\<open>undefined\<close>: a \<^verbatim>\<open>TypeError\<close>. Here and in the other
  handlers the validation answers 400 when the field is missing, so the branch that reads a
  missing field after the validation is never taken; it answers 400 as well.
\<close>

definition getAvailableOptions ::
  "templates \<Rightarrow> string \<Rightarrow> string \<Rightarrow> string js_object option \<Rightarrow> response" where
  "getAvailableOptions ts template_str_id target_category_str_id currentSelections =
     (case validateRequestBody [''currentSelections'']
             (body_of [(''currentSelections'', truthy_obj currentSelections)]) of
        Some validationError \<Rightarrow> (400, Error validationError)
      | None \<Rightarrow>
          (case lookup_template ts template_str_id of
             Missing \<Rightarrow> (404, Error ''Template not found.'')
           | Inherited \<Rightarrow> (500, TypeError)
           | Own t \<Rightarrow>
               (case currentSelections of
                  None \<Rightarrow> (400, Error ''Missing required fields: currentSelections'')
                | Some sel \<Rightarrow>
                    (200, AvailableOptions (availableOptions t target_category_str_id sel)))))"

subsection \<open>Route 3: validation and price\<close>

definition quoted :: "string \<Rightarrow> string" where
  "quoted s = CHR 0x22 # s @ [CHR 0x22]"

text \<open>Lines 97-106: what one rule pushes onto \<^verbatim>\<open>errors\<close>.\<close>

definition rule_errors :: "string js_object \<Rightarrow> compatibility_rule \<Rightarrow> string list" where
  "rule_errors selections rule =
     (if rule_type rule = ''REQUIRES'' \<and> selected selections (primary_choice_str_id rule)
      then (if \<not> selected selections (secondary_choice_str_id rule)
            then [quoted (primary_choice_str_id rule) @ '' requires ''
                    @ quoted (secondary_choice_str_id rule)]
            else [])
      else [])
     @
     (if rule_type rule = ''INCOMPATIBLE_WITH'' \<and> selected selections (primary_choice_str_id rule)
      then (if selected selections (secondary_choice_str_id rule)
            then [quoted (primary_choice_str_id rule) @ '' is incompatible with ''
                    @ quoted (secondary_choice_str_id rule)]
            else [])
      else [])"

text \<open>
  The values of \<^verbatim>\<open>totalPrice\<close>: a finite double with an integer value, an infinity or
  \<^verbatim>\<open>NaN\<close>.
\<close>

datatype number = Number int | Infinity | NegInfinity | NaN

text \<open>The number of binary digits of a positive integer.\<close>

function bit_length :: "int \<Rightarrow> nat" where
  "bit_length n = (if n \<le> 0 then 0 else Suc (bit_length (n div 2)))"
  by pat_completeness auto
termination
  by (relation "measure nat") auto

declare bit_length.simps [simp del]

text \<open>
  The double nearest to an integer, ties to the even significand: integers up to \<open>2\<^sup>5\<^sup>3\<close> in
  magnitude are doubles; a larger one keeps 53 binary digits; what rounds to \<open>2\<^sup>1\<^sup>0\<^sup>2\<^sup>4\<close> or
  beyond is infinite.
\<close>

definition round_double :: "int \<Rightarrow> number" where
  "round_double n =
     (if \<bar>n\<bar> \<le> 2 ^ 53 then Number n
      else
        (let k = bit_length \<bar>n\<bar> - 53;
             q = \<bar>n\<bar> div 2 ^ k;
             r = \<bar>n\<bar> mod 2 ^ k;
             m = (if 2 * r > 2 ^ k \<or> (2 * r = 2 ^ k \<and> odd q) then q + 1 else q) * 2 ^ k
         in if m \<ge> 2 ^ 1024
            then (if n < 0 then NegInfinity else Infinity)
            else Number (sgn n * m)))"

text \<open>\<^verbatim>\<open>totalPrice + price_delta\<close> for a price delta of the catalogue.\<close>

fun add_number :: "number \<Rightarrow> int \<Rightarrow> number" where
  "add_number (Number a) b = round_double (a + b)"
| "add_number Infinity b = Infinity"
| "add_number NegInfinity b = NegInfinity"
| "add_number NaN b = NaN"

text \<open>
  What \<^verbatim>\<open>template.options[selection]?.[selections[selection]]\<close> (line 114) finds: an option of
  the catalogue; a truthy value that is no option and has no \<^verbatim>\<open>price_delta\<close>; a falsy value
  or nothing; or the access throws.
\<close>

datatype found = Priced product_option | Member | Nothing | Throws

text \<open>
  \<^verbatim>\<open>Object.prototype[k][v]\<close> for a member \<open>k\<close>. The member \<^verbatim>\<open>__proto__\<close> of \<^verbatim>\<open>options\<close> is
  \<^verbatim>\<open>Object.prototype\<close> itself, whose own \<^verbatim>\<open>__proto__\<close> is \<^verbatim>\<open>null\<close>. The others are functions:
  they have a name and a length, which is 0 for three of them, inherit the members of
  \<^verbatim>\<open>Function.prototype\<close> and of \<^verbatim>\<open>Object.prototype\<close>, and their \<^verbatim>\<open>caller\<close> and \<^verbatim>\<open>arguments\<close>
  throw; the constructor \<^verbatim>\<open>Object\<close> has its \<^verbatim>\<open>prototype\<close> and its functions besides.
\<close>

definition builtin_member :: "string \<Rightarrow> string \<Rightarrow> found" where
  "builtin_member k v =
     (if k = ''__proto__''
      then (if v \<in> set object_prototype_members \<and> v \<noteq> ''__proto__'' then Member else Nothing)
      else if v = ''caller'' \<or> v = ''arguments'' then Throws
      else if v = ''length''
      then (if k \<in> set [''toString'', ''valueOf'', ''toLocaleString''] then Nothing else Member)
      else if v \<in> set object_prototype_members
              \<or> v \<in> set [''name'', ''apply'', ''bind'', ''call'']
      then Member
      else if k = ''constructor'' \<and> v \<in> set (''prototype'' # object_static_members)
      then Member
      else Nothing)"

definition find_option :: "template \<Rightarrow> string \<Rightarrow> string \<Rightarrow> found" where
  "find_option t selection choice =
     (case map_of (options t) selection of
        Some category \<Rightarrow>
          (case map_of category choice of
             Some opt \<Rightarrow> Priced opt
           | None \<Rightarrow> if choice \<in> set object_prototype_members then Member else Nothing)
      | None \<Rightarrow>
          if selection \<in> set object_prototype_members
          then builtin_member selection choice
          else Nothing)"

text \<open>
  Lines 113-118, one turn of the loop over \<^verbatim>\<open>Object.keys(selections)\<close>: the key is looked up
  as a category of the template and its value as a choice of that category. Adding the
  \<^verbatim>\<open>price_delta\<close> of a value that has none gives \<^verbatim>\<open>NaN\<close>. The result is \<open>None\<close> when the
  access throws. A key of \<open>selections\<close> always has a value, so the first \<open>None\<close> is never
  reached.
\<close>

definition add_price :: "template \<Rightarrow> string js_object \<Rightarrow> number \<Rightarrow> string \<Rightarrow> number option" where
  "add_price t selections totalPrice selection =
     (case map_of selections selection of
        None \<Rightarrow> Some totalPrice
      | Some choice \<Rightarrow>
          (case find_option t selection choice of
             Priced opt \<Rightarrow> Some (add_number totalPrice (price_delta opt))
           | Member \<Rightarrow> Some NaN
           | Nothing \<Rightarrow> Some totalPrice
           | Throws \<Rightarrow> None))"

text \<open>The loop of lines 113-118 over the keys, stopped by an exception.\<close>

fun price_loop :: "template \<Rightarrow> string js_object \<Rightarrow> number \<Rightarrow> string list \<Rightarrow> number option" where
  "price_loop t selections totalPrice [] = Some totalPrice"
| "price_loop t selections totalPrice (selection # rest) =
     (case add_price t selections totalPrice selection of
        None \<Rightarrow> None
      | Some price \<Rightarrow> price_loop t selections price rest)"

text \<open>
  Lines 79-121. For an inherited member line 89 does not answer, line 94 reads no price,
  and line 96 calls \<^verbatim>\<open>forEach\<close> of \<^verbatim>\<open>undefined\<close>: a \<^verbatim>\<open>TypeError\<close>.
\<close>

definition validateConfiguration ::
  "templates \<Rightarrow> string \<Rightarrow> string js_object option \<Rightarrow> response" where
  "validateConfiguration ts template_str_id selections =
     (case validateRequestBody [''selections'']
             (body_of [(''selections'', truthy_obj selections)]) of
        Some validationError \<Rightarrow> (400, Error validationError)
      | None \<Rightarrow>
          (case lookup_template ts template_str_id of
             Missing \<Rightarrow> (404, Error ''Template not found.'')
           | Inherited \<Rightarrow> (500, TypeError)
           | Own t \<Rightarrow>
               (case selections of
                  None \<Rightarrow> (400, Error ''Missing required fields: selections'')
                | Some sel \<Rightarrow>
                    (let errors = concat (map (rule_errors sel) (compatibilityRules t));
                         totalPrice = Number (if base_price t \<noteq> 0 then base_price t else 0)
                     in if length errors > 0
                        then (400, Invalid errors)
                        else
                          (case price_loop t sel totalPrice (map fst (own_entries sel)) of
                             None \<Rightarrow> (500, TypeError)
                           | Some (Number n) \<Rightarrow> (200, Valid n sel)
                           | Some other \<Rightarrow> (200, ValidNull sel))))))"

subsection \<open>Routes 1, 4 and 5: the mutations\<close>

text \<open>
  Lines 20-40. For an inherited member line 29 creates nothing and line 33 calls \<^verbatim>\<open>push\<close> of
  \<^verbatim>\<open>undefined\<close>: a \<^verbatim>\<open>TypeError\<close>.
\<close>

definition addCompatibilityRule ::
  "templates \<Rightarrow> string \<Rightarrow> string option \<Rightarrow> string option \<Rightarrow> string option
     \<Rightarrow> templates \<times> response" where
  "addCompatibilityRule ts template_str_id rule_type' primary' secondary' =
     (case validateRequestBody
             [''rule_type'', ''primary_choice_str_id'', ''secondary_choice_str_id'']
             (body_of [(''rule_type'', truthy_str rule_type'),
                       (''primary_choice_str_id'', truthy_str primary'),
                       (''secondary_choice_str_id'', truthy_str secondary')]) of
        Some validationError \<Rightarrow> (ts, 400, Error validationError)
      | None \<Rightarrow>
          (case (rule_type', primary', secondary') of
             (Some rt, Some p, Some s) \<Rightarrow>
               (case lookup_template ts template_str_id of
                  Inherited \<Rightarrow> (ts, 500, TypeError)
                | other \<Rightarrow>
                    (let t = ensured ts template_str_id
                     in (ts(template_str_id \<mapsto>
                           t\<lparr>compatibilityRules := compatibilityRules t @
                               [\<lparr>rule_type = rt, primary_choice_str_id = p,
                                 secondary_choice_str_id = s\<rparr>]\<rparr>),
                         200, Message ''Compatibility rule added successfully.'')))
           | _ \<Rightarrow> (ts, 400, Error ''Missing required fields'')))"

text \<open>
  Lines 124-140. For an inherited member line 133 creates nothing and line 137 writes
  \<^verbatim>\<open>base_price\<close> onto the member, a built-in object: the store is as before and the answer is
  200.
\<close>

definition setBasePrice :: "templates \<Rightarrow> string \<Rightarrow> int option \<Rightarrow> templates \<times> response" where
  "setBasePrice ts template_str_id base_price' =
     (case validateRequestBody [''base_price'']
             (body_of [(''base_price'', truthy_num base_price')]) of
        Some validationError \<Rightarrow> (ts, 400, Error validationError)
      | None \<Rightarrow>
          (case base_price' of
             Some p \<Rightarrow>
               (case lookup_template ts template_str_id of
                  Inherited \<Rightarrow> (ts, 200, Message ''Base price set successfully.'')
                | other \<Rightarrow>
                    (let t = ensured ts template_str_id
                     in (ts(template_str_id \<mapsto> t\<lparr>base_price := p\<rparr>),
                         200, Message ''Base price set successfully.'')))
           | None \<Rightarrow> (ts, 400, Error ''Missing required fields: base_price'')))"

text \<open>
  Lines 143-159. For an inherited member line 152 creates nothing and line 156 assigns to a
  property of its \<^verbatim>\<open>options\<close>, which is \<^verbatim>\<open>undefined\<close>: a \<^verbatim>\<open>TypeError\<close>. Under the category
  name \<^verbatim>\<open>__proto__\<close> the assignment of line 156 sets the prototype of \<^verbatim>\<open>options\<close>, which a
  lookup of that name reads back; the entry of the list stands for it.
\<close>

definition addOptions ::
  "templates \<Rightarrow> string \<Rightarrow> string \<Rightarrow> product_option js_object option \<Rightarrow> templates \<times> response" where
  "addOptions ts template_str_id category_str_id options' =
     (case validateRequestBody [''options''] (body_of [(''options'', truthy_obj options')]) of
        Some validationError \<Rightarrow> (ts, 400, Error validationError)
      | None \<Rightarrow>
          (case options' of
             Some opts \<Rightarrow>
               (case lookup_template ts template_str_id of
                  Inherited \<Rightarrow> (ts, 500, TypeError)
                | other \<Rightarrow>
                    (let t = ensured ts template_str_id
                     in (ts(template_str_id \<mapsto>
                           t\<lparr>options := AList.update category_str_id opts (options t)\<rparr>),
                         200, Message ''Options added successfully.'')))
           | None \<Rightarrow> (ts, 400, Error ''Missing required fields: options'')))"

subsection \<open>The specification's formulations\<close>

text \<open>
  The total price in the words of the specification's section 4.3, where the key of a
  selection is a choice identifier (section 3) that is matched against each category: the
  first category that has the choice gives the option.
\<close>

fun find_choice :: "product_option js_object js_object \<Rightarrow> string \<Rightarrow> product_option option" where
  "find_choice [] choice = None"
| "find_choice (c # rest) choice =
     (case map_of (snd c) choice of
        Some opt \<Rightarrow> Some opt
      | None \<Rightarrow> find_choice rest choice)"

definition spec_total_price :: "template \<Rightarrow> string js_object \<Rightarrow> int" where
  "spec_total_price t selections =
     base_price t +
     sum_list (map (\<lambda>entry. case find_choice (options t) (fst entry) of
                              None \<Rightarrow> 0
                            | Some opt \<Rightarrow> price_delta opt) selections)"

text \<open>The message that names a violated rule (section 4.3).\<close>

definition violation_message :: "compatibility_rule \<Rightarrow> string" where
  "violation_message rule =
     (if rule_type rule = ''REQUIRES''
      then quoted (primary_choice_str_id rule) @ '' requires ''
             @ quoted (secondary_choice_str_id rule)
      else quoted (primary_choice_str_id rule) @ '' is incompatible with ''
             @ quoted (secondary_choice_str_id rule))"

subsection \<open>The chair of the specification's scenarios, and a shelf\<close>

definition requires_oak :: compatibility_rule where
  "requires_oak =
     \<lparr>rule_type = ''REQUIRES'', primary_choice_str_id = ''legs_wood'',
      secondary_choice_str_id = ''finish_oak''\<rparr>"

definition excludes_oak :: compatibility_rule where
  "excludes_oak =
     \<lparr>rule_type = ''INCOMPATIBLE_WITH'', primary_choice_str_id = ''legs_wood'',
      secondary_choice_str_id = ''finish_oak''\<rparr>"

definition chair :: template where
  "chair =
     \<lparr>compatibilityRules = [requires_oak],
      options =
        [(''legs'', [(''legs_wood'', \<lparr>name = ''Wood'', price_delta = 10\<rparr>),
                     (''legs_steel'', \<lparr>name = ''Steel'', price_delta = 15\<rparr>)]),
         (''finish'', [(''finish_oak'', \<lparr>name = ''Oak'', price_delta = 20\<rparr>)])],
      base_price = 100\<rparr>"

definition shop :: templates where
  "shop = [''chair'' \<mapsto> chair]"

text \<open>A shelf whose boards are named by their number: 10 was added before 9.\<close>

definition shelf :: template where
  "shelf =
     \<lparr>compatibilityRules = [requires_oak],
      options =
        [(''boards'', [(''10'', \<lparr>name = ''Ten'', price_delta = 50\<rparr>),
                       (''wide'', \<lparr>name = ''Wide'', price_delta = 5\<rparr>),
                       (''9'', \<lparr>name = ''Nine'', price_delta = 45\<rparr>)])],
      base_price = 30\<rparr>"

section \<open>Properties\<close>

subsection \<open>Request validation and lookup\<close>

lemma validate_present: "validateRequestBody [f] (body_of [(f, True)]) = None"
  by (simp add: validateRequestBody_def body_of_def)

lemma validate_missing:
  "validateRequestBody [f] (body_of [(f, False)]) = Some (''Missing required fields: '' @ f)"
  by (simp add: validateRequestBody_def body_of_def)

lemma lookup_own: "ts template_str_id = Some t \<Longrightarrow> lookup_template ts template_str_id = Own t"
  by (simp add: lookup_template_def)

lemma lookup_missing:
  "ts template_str_id = None \<Longrightarrow> template_str_id \<notin> set object_prototype_members \<Longrightarrow>
     lookup_template ts template_str_id = Missing"
  by (simp add: lookup_template_def)

lemma lookup_inherited:
  "ts template_str_id = None \<Longrightarrow> template_str_id \<in> set object_prototype_members \<Longrightarrow>
     lookup_template ts template_str_id = Inherited"
  by (simp add: lookup_template_def)

subsection \<open>Rules and their messages\<close>

lemma rule_errors_Nil_iff: "rule_errors sel r = [] \<longleftrightarrow> rule_satisfied sel r"
  by (simp add: rule_errors_def rule_satisfied_def)

lemma errors_Nil_iff:
  "concat (map (rule_errors sel) rs) = [] \<longleftrightarrow> list_all (rule_satisfied sel) rs"
  by (induction rs) (simp_all add: rule_errors_Nil_iff)

lemma rule_errors_violated:
  "\<not> rule_satisfied sel r \<Longrightarrow> rule_errors sel r = [violation_message r]"
  by (auto simp: rule_errors_def rule_satisfied_def violation_message_def split: if_splits)

lemma errors_eq:
  "concat (map (rule_errors sel) rs) =
     map violation_message (filter (\<lambda>r. \<not> rule_satisfied sel r) rs)"
proof (induction rs)
  case Nil
  show ?case by simp
next
  case (Cons r rs)
  show ?case
  proof (cases "rule_satisfied sel r")
    case True
    then have "rule_errors sel r = []" by (simp add: rule_errors_Nil_iff)
    with True Cons show ?thesis by simp
  next
    case False
    then have "rule_errors sel r = [violation_message r]" by (rule rule_errors_violated)
    with False Cons show ?thesis by simp
  qed
qed

lemma no_selection_satisfies: "list_all (rule_satisfied []) rs"
  by (simp add: list_all_iff rule_satisfied_def selected_def)

text \<open>
  C2. A \<^verbatim>\<open>REQUIRES\<close> rule whose primary choice is selected is satisfied iff the secondary
  choice is selected; an \<^verbatim>\<open>INCOMPATIBLE_WITH\<close> rule whose primary choice is selected is
  satisfied iff the secondary choice is not selected; a rule whose primary choice is not
  selected is satisfied, whatever its type; a rule of any other type is satisfied.
\<close>

theorem rule_satisfied_semantics:
  "(rule_type r = ''REQUIRES'' \<and> selected sel (primary_choice_str_id r) \<longrightarrow>
      (rule_satisfied sel r \<longleftrightarrow> selected sel (secondary_choice_str_id r)))
   \<and> (rule_type r = ''INCOMPATIBLE_WITH'' \<and> selected sel (primary_choice_str_id r) \<longrightarrow>
      (rule_satisfied sel r \<longleftrightarrow> \<not> selected sel (secondary_choice_str_id r)))
   \<and> (\<not> selected sel (primary_choice_str_id r) \<longrightarrow> rule_satisfied sel r)
   \<and> (rule_type r \<noteq> ''REQUIRES'' \<and> rule_type r \<noteq> ''INCOMPATIBLE_WITH'' \<longrightarrow>
      rule_satisfied sel r)"
  by (simp add: rule_satisfied_def)

text \<open>
  The four cases on the chair's choices: wood legs selected without and with the oak
  finish, no wood legs, and a rule of the unknown type \<^verbatim>\<open>SUGGESTS\<close>.
\<close>

theorem rule_satisfied_semantics_witness:
  "\<not> rule_satisfied [(''legs_wood'', ''legs_wood'')] requires_oak
   \<and> rule_satisfied [(''legs_wood'', ''legs_wood''), (''finish_oak'', ''finish_oak'')] requires_oak
   \<and> rule_satisfied [(''legs_wood'', ''legs_wood'')] excludes_oak
   \<and> \<not> rule_satisfied [(''legs_wood'', ''legs_wood''), (''finish_oak'', ''finish_oak'')]
         excludes_oak
   \<and> rule_satisfied [(''finish_oak'', ''finish_oak'')] requires_oak
   \<and> rule_satisfied [(''legs_wood'', ''legs_wood'')]
         \<lparr>rule_type = ''SUGGESTS'', primary_choice_str_id = ''legs_wood'',
          secondary_choice_str_id = ''finish_oak''\<rparr>"
  using
    rule_satisfied_semantics [of requires_oak "[(''legs_wood'', ''legs_wood'')]"]
    rule_satisfied_semantics
      [of requires_oak "[(''legs_wood'', ''legs_wood''), (''finish_oak'', ''finish_oak'')]"]
    rule_satisfied_semantics [of excludes_oak "[(''legs_wood'', ''legs_wood'')]"]
    rule_satisfied_semantics
      [of excludes_oak "[(''legs_wood'', ''legs_wood''), (''finish_oak'', ''finish_oak'')]"]
    rule_satisfied_semantics [of requires_oak "[(''finish_oak'', ''finish_oak'')]"]
    rule_satisfied_semantics
      [of "\<lparr>rule_type = ''SUGGESTS'', primary_choice_str_id = ''legs_wood'',
            secondary_choice_str_id = ''finish_oak''\<rparr>" "[(''legs_wood'', ''legs_wood'')]"]
  by (simp add: requires_oak_def excludes_oak_def selected_def)

subsection \<open>Validation of a configuration\<close>

lemma own_entries_names:
  "array_index a = None \<Longrightarrow> array_index b = None \<Longrightarrow>
     own_entries [(a, x), (b, y)] = [(a, x), (b, y)]"
  by (simp add: own_entries_def)

lemma not_an_index: "\<not> is_digit (hd s) \<Longrightarrow> array_index s = None"
  by (cases s) (simp_all add: array_index_def)

text \<open>
  C1 asks that every selection whose key resolves to an option of some category adds its
  price delta. On the specification's second scenario, where the selections are keyed by
  choice as the rules read them (lines 97-103), every rule holds and each key is a choice
  of a category, so the specification's total is 130; line 114 reads the keys as
  categories, finds none, and the handler answers 100.
\<close>

theorem spec_scenario_total:
  "list_all (rule_satisfied [(''legs_wood'', ''legs_wood''), (''finish_oak'', ''finish_oak'')])
     (compatibilityRules chair)
   \<and> spec_total_price chair [(''legs_wood'', ''legs_wood''), (''finish_oak'', ''finish_oak'')]
       = 130
   \<and> validateConfiguration shop ''chair''
        (Some [(''legs_wood'', ''legs_wood''), (''finish_oak'', ''finish_oak'')]) =
      (200, Valid 100 [(''legs_wood'', ''legs_wood''), (''finish_oak'', ''finish_oak'')])"
proof (intro conjI)
  let ?sel = "[(''legs_wood'', ''legs_wood''), (''finish_oak'', ''finish_oak'')]"
  show "list_all (rule_satisfied ?sel) (compatibilityRules chair)"
    by (simp add: chair_def requires_oak_def rule_satisfied_def selected_def)
  show "spec_total_price chair ?sel = 130"
    by (simp add: spec_total_price_def chair_def)
  have keys: "map fst (own_entries ?sel) = [''legs_wood'', ''finish_oak'']"
    by (simp add: own_entries_names not_an_index is_digit_def)
  have a: "add_price chair ?sel (Number 100) ''legs_wood'' = Some (Number 100)"
    by (simp add: add_price_def find_option_def chair_def object_prototype_members_def)
  have b: "add_price chair ?sel (Number 100) ''finish_oak'' = Some (Number 100)"
    by (simp add: add_price_def find_option_def chair_def object_prototype_members_def)
  have "price_loop chair ?sel (Number 100) [''legs_wood'', ''finish_oak''] = Some (Number 100)"
    by (simp add: a b)
  moreover have "concat (map (rule_errors ?sel) (compatibilityRules chair)) = []"
    by (simp add: chair_def requires_oak_def rule_errors_def selected_def)
  moreover have "lookup_template shop ''chair'' = Own chair"
    by (simp add: lookup_template_def shop_def)
  moreover have "base_price chair = 100"
    by (simp add: chair_def)
  ultimately show "validateConfiguration shop ''chair'' (Some ?sel) = (200, Valid 100 ?sel)"
    by (simp add: validateConfiguration_def validate_present keys)
qed

text \<open>
  Keyed by category the same choices are priced: 100 + 10 + 20. No rule can then find a
  choice selected.
\<close>

lemma category_scenario_total:
  "validateConfiguration shop ''chair''
     (Some [(''legs'', ''legs_wood''), (''finish'', ''finish_oak'')]) =
   (200, Valid 130 [(''legs'', ''legs_wood''), (''finish'', ''finish_oak'')])"
proof -
  let ?sel = "[(''legs'', ''legs_wood''), (''finish'', ''finish_oak'')]"
  have keys: "map fst (own_entries ?sel) = [''legs'', ''finish'']"
    by (simp add: own_entries_names not_an_index is_digit_def)
  have a: "add_price chair ?sel (Number 100) ''legs'' = Some (Number 110)"
    by (simp add: add_price_def find_option_def chair_def round_double_def)
  have b: "add_price chair ?sel (Number 110) ''finish'' = Some (Number 130)"
    by (simp add: add_price_def find_option_def chair_def round_double_def)
  have "price_loop chair ?sel (Number 100) [''legs'', ''finish''] = Some (Number 130)"
    by (simp add: a b)
  moreover have "concat (map (rule_errors ?sel) (compatibilityRules chair)) = []"
    by (simp add: chair_def requires_oak_def rule_errors_def selected_def)
  moreover have "lookup_template shop ''chair'' = Own chair"
    by (simp add: lookup_template_def shop_def)
  moreover have "base_price chair = 100"
    by (simp add: chair_def)
  ultimately show ?thesis
    by (simp add: validateConfiguration_def validate_present keys)
qed

text \<open>
  C3. When at least one rule of the template is violated, validateConfiguration answers
  with \<^verbatim>\<open>is_valid: false\<close> and the messages of all violated rules, in the order of the rule
  set; a message reads \<^verbatim>\<open>"A" requires "B"\<close> or \<^verbatim>\<open>"A" is incompatible with "B"\<close>; the
  answer carries no price.
\<close>

theorem validate_violations:
  assumes "ts template_str_id = Some t"
    and "\<exists>r \<in> set (compatibilityRules t). \<not> rule_satisfied selections r"
  shows "validateConfiguration ts template_str_id (Some selections) =
           (400, Invalid (map violation_message
                   (filter (\<lambda>r. \<not> rule_satisfied selections r) (compatibilityRules t))))"
proof -
  have "\<not> list_all (rule_satisfied selections) (compatibilityRules t)"
    using assms(2) by (simp add: list_all_iff)
  then have "concat (map (rule_errors selections) (compatibilityRules t)) \<noteq> []"
    by (simp only: errors_Nil_iff not_False_eq_True)
  then show ?thesis
    using lookup_own [of ts template_str_id t, OF assms(1)]
    by (simp add: validateConfiguration_def validate_present errors_eq [symmetric])
qed

text \<open>The specification's first scenario: wood legs without the oak finish.\<close>

theorem validate_violations_witness:
  "validateConfiguration shop ''chair'' (Some [(''legs_wood'', ''legs_wood'')]) =
     (400, Invalid [CHR 0x22 # ''legs_wood'' @ CHR 0x22 # '' requires '' @
                    CHR 0x22 # ''finish_oak'' @ [CHR 0x22]])"
proof -
  let ?sel = "[(''legs_wood'', ''legs_wood'')]"
  have a: "shop ''chair'' = Some chair"
    by (simp add: shop_def)
  have v: "\<not> rule_satisfied ?sel requires_oak"
    by (simp add: requires_oak_def rule_satisfied_def selected_def)
  then have b: "\<exists>r \<in> set (compatibilityRules chair). \<not> rule_satisfied ?sel r"
    by (simp add: chair_def)
  have "map violation_message (filter (\<lambda>r. \<not> rule_satisfied ?sel r) (compatibilityRules chair))
          = [violation_message requires_oak]"
    using v by (simp add: chair_def)
  with validate_violations [of shop "''chair''" chair ?sel, OF a b] show ?thesis
    by (simp add: violation_message_def requires_oak_def quoted_def)
qed

text \<open>
  C4. For a template of the store, whatever its base price and rules, validateConfiguration
  on the empty selections object answers \<^verbatim>\<open>is_valid: true\<close> with the base price as total.
\<close>

theorem validate_empty_selections:
  assumes "ts template_str_id = Some t"
  shows "validateConfiguration ts template_str_id (Some []) = (200, Valid (base_price t) [])"
proof -
  have "concat (map (rule_errors []) (compatibilityRules t)) = []"
    using no_selection_satisfies [of "compatibilityRules t"] by (simp only: errors_Nil_iff)
  moreover have "own_entries ([] :: string js_object) = []"
    by (simp add: own_entries_def)
  ultimately show ?thesis
    using lookup_own [of ts template_str_id t, OF assms] by (simp add: validateConfiguration_def validate_present)
qed

theorem validate_empty_selections_witness:
  "validateConfiguration shop ''chair'' (Some []) = (200, Valid 100 [])"
proof -
  have "shop ''chair'' = Some chair"
    by (simp add: shop_def)
  from validate_empty_selections [of shop "''chair''" chair, OF this] show ?thesis
    by (simp add: chair_def)
qed

text \<open>
  The price loop leaves the exact integers: a choice that names a member of
  \<^verbatim>\<open>Object.prototype\<close> is found in every category and has no price delta, and a sum beyond
  \<open>2\<^sup>5\<^sup>3\<close> is rounded.
\<close>

lemma inherited_choice_total:
  "validateConfiguration shop ''chair'' (Some [(''legs'', ''constructor'')]) =
     (200, ValidNull [(''legs'', ''constructor'')])"
proof -
  let ?sel = "[(''legs'', ''constructor'')]"
  have keys: "map fst (own_entries ?sel) = [''legs'']"
    by (simp add: own_entries_def not_an_index is_digit_def)
  have "add_price chair ?sel (Number 100) ''legs'' = Some NaN"
    by (simp add: add_price_def find_option_def chair_def object_prototype_members_def)
  then have "price_loop chair ?sel (Number 100) [''legs''] = Some NaN"
    by simp
  moreover have "concat (map (rule_errors ?sel) (compatibilityRules chair)) = []"
    by (simp add: chair_def requires_oak_def rule_errors_def selected_def)
  moreover have "lookup_template shop ''chair'' = Own chair"
    by (simp add: lookup_template_def shop_def)
  moreover have "base_price chair = 100"
    by (simp add: chair_def)
  ultimately show ?thesis
    by (simp add: validateConfiguration_def validate_present keys)
qed

lemma round_double_odd: "round_double (2 ^ 53 + 1) = Number (2 ^ 53)"
  by (simp add: round_double_def Let_def bit_length.simps)

subsection \<open>Available options\<close>

lemma array_index_10: "array_index ''10'' = Some 10"
  by (simp add: array_index_def is_digit_def decimal_def)

lemma array_index_9: "array_index ''9'' = Some 9"
  by (simp add: array_index_def is_digit_def decimal_def)

lemma shelf_boards:
  "own_entries [(''10'', \<lparr>name = ''Ten'', price_delta = 50\<rparr>),
                (''wide'', \<lparr>name = ''Wide'', price_delta = 5\<rparr>),
                (''9'', \<lparr>name = ''Nine'', price_delta = 45\<rparr>)] =
     [(''9'', \<lparr>name = ''Nine'', price_delta = 45\<rparr>),
      (''10'', \<lparr>name = ''Ten'', price_delta = 50\<rparr>),
      (''wide'', \<lparr>name = ''Wide'', price_delta = 5\<rparr>)]"
proof -
  have "array_index ''wide'' = None"
    by (simp add: not_an_index is_digit_def)
  then show ?thesis
    by (simp add: own_entries_def array_index_10 array_index_9)
qed

text \<open>
  C9, as amended. For a template of the store, the filter of getAvailableOptions does not
  depend on the candidate choice: the answer is the whole option mapping of the category,
  in the order in which \<^verbatim>\<open>Object.entries\<close> enumerates it (the choice identifiers that are
  array indices first, in ascending numeric order, then the others in insertion order),
  when every rule is satisfied by the current selections, and the empty sequence when some
  rule is not; never a proper non-empty part. The target is a category of the template, or
  a name that the template lacks and \<^verbatim>\<open>Object.prototype\<close> does not define, in a template
  without a category \<^verbatim>\<open>__proto__\<close>.
\<close>

theorem availableOptions_all_or_nothing:
  assumes "ts template_str_id = Some t"
    and "map_of (options t) target_category_str_id \<noteq> None
         \<or> (target_category_str_id \<notin> set object_prototype_members
            \<and> map_of (options t) ''__proto__'' = None)"
  shows "getAvailableOptions ts template_str_id target_category_str_id (Some currentSelections) =
           (200, AvailableOptions
              (if list_all (rule_satisfied currentSelections) (compatibilityRules t)
               then map option_summary
                      (own_entries
                         (case map_of (options t) target_category_str_id of
                            None \<Rightarrow> []
                          | Some category \<Rightarrow> category))
               else []))"
  using lookup_own [of ts template_str_id t, OF assms(1)]
  by (simp add: getAvailableOptions_def validate_present availableOptions_def
      category_entries_def)

text \<open>
  The boards of the shelf, a category that it has: all three in the order 9, 10, wide while
  no rule is violated, none once wood legs are selected without the oak finish. The shelf
  has no colours.
\<close>

theorem availableOptions_all_or_nothing_witness:
  "getAvailableOptions [''shelf'' \<mapsto> shelf] ''shelf'' ''boards'' (Some []) =
     (200, AvailableOptions
        [\<lparr>name = ''Nine'', price_delta = 45, choice_str_id = ''9''\<rparr>,
         \<lparr>name = ''Ten'', price_delta = 50, choice_str_id = ''10''\<rparr>,
         \<lparr>name = ''Wide'', price_delta = 5, choice_str_id = ''wide''\<rparr>])
   \<and> getAvailableOptions [''shelf'' \<mapsto> shelf] ''shelf'' ''boards''
       (Some [(''legs_wood'', ''legs_wood'')]) = (200, AvailableOptions [])
   \<and> getAvailableOptions [''shelf'' \<mapsto> shelf] ''shelf'' ''colours'' (Some []) =
     (200, AvailableOptions [])"
proof -
  let ?ts = "[''shelf'' \<mapsto> shelf]"
  have a: "?ts ''shelf'' = Some shelf"
    by simp
  have own: "map_of (options shelf) ''boards'' \<noteq> None
     \<or> (''boards'' \<notin> set object_prototype_members \<and> map_of (options shelf) ''__proto__'' = None)"
    by (simp add: shelf_def)
  have lacks: "map_of (options shelf) ''colours'' \<noteq> None
     \<or> (''colours'' \<notin> set object_prototype_members
        \<and> map_of (options shelf) ''__proto__'' = None)"
    by (simp add: shelf_def object_prototype_members_def)
  have sat: "list_all (rule_satisfied []) (compatibilityRules shelf)"
    by (rule no_selection_satisfies)
  have viol: "\<not> list_all (rule_satisfied [(''legs_wood'', ''legs_wood'')])
                 (compatibilityRules shelf)"
    by (simp add: shelf_def requires_oak_def rule_satisfied_def selected_def)
  have boards: "map_of (options shelf) ''boards'' =
      Some [(''10'', \<lparr>name = ''Ten'', price_delta = 50\<rparr>),
            (''wide'', \<lparr>name = ''Wide'', price_delta = 5\<rparr>),
            (''9'', \<lparr>name = ''Nine'', price_delta = 45\<rparr>)]"
    by (simp add: shelf_def)
  have colours: "map_of (options shelf) ''colours'' = None"
    by (simp add: shelf_def)
  have none: "own_entries ([] :: product_option js_object) = []"
    by (simp add: own_entries_def)
  show ?thesis
    using
      availableOptions_all_or_nothing [of ?ts "''shelf''" shelf "''boards''" "[]", OF a own]
      availableOptions_all_or_nothing [of ?ts "''shelf''" shelf "''boards''"
        "[(''legs_wood'', ''legs_wood'')]", OF a own]
      availableOptions_all_or_nothing [of ?ts "''shelf''" shelf "''colours''" "[]", OF a lacks]
      sat viol
    by (simp add: boards colours shelf_boards none option_summary_def)
qed

text \<open>
  The boards in insertion order are 10, wide, 9; the handler answers 9, 10, wide.
\<close>

theorem availableOptions_all_or_nothing_counterexample:
  "map_of (options shelf) ''boards'' =
     Some [(''10'', \<lparr>name = ''Ten'', price_delta = 50\<rparr>),
           (''wide'', \<lparr>name = ''Wide'', price_delta = 5\<rparr>),
           (''9'', \<lparr>name = ''Nine'', price_delta = 45\<rparr>)]
   \<and> list_all (rule_satisfied []) (compatibilityRules shelf)
   \<and> getAvailableOptions [''shelf'' \<mapsto> shelf] ''shelf'' ''boards'' (Some []) =
     (200, AvailableOptions
        [\<lparr>name = ''Nine'', price_delta = 45, choice_str_id = ''9''\<rparr>,
         \<lparr>name = ''Ten'', price_delta = 50, choice_str_id = ''10''\<rparr>,
         \<lparr>name = ''Wide'', price_delta = 5, choice_str_id = ''wide''\<rparr>])
   \<and> getAvailableOptions [''shelf'' \<mapsto> shelf] ''shelf'' ''boards'' (Some []) \<noteq>
     (200, AvailableOptions
        (map option_summary
           [(''10'', \<lparr>name = ''Ten'', price_delta = 50\<rparr>),
            (''wide'', \<lparr>name = ''Wide'', price_delta = 5\<rparr>),
            (''9'', \<lparr>name = ''Nine'', price_delta = 45\<rparr>)]))"
proof -
  have boards: "map_of (options shelf) ''boards'' =
      Some [(''10'', \<lparr>name = ''Ten'', price_delta = 50\<rparr>),
            (''wide'', \<lparr>name = ''Wide'', price_delta = 5\<rparr>),
            (''9'', \<lparr>name = ''Nine'', price_delta = 45\<rparr>)]"
    by (simp add: shelf_def)
  have sat: "list_all (rule_satisfied []) (compatibilityRules shelf)"
    by (rule no_selection_satisfies)
  have "category_entries shelf ''boards'' =
     [(''9'', \<lparr>name = ''Nine'', price_delta = 45\<rparr>),
      (''10'', \<lparr>name = ''Ten'', price_delta = 50\<rparr>),
      (''wide'', \<lparr>name = ''Wide'', price_delta = 5\<rparr>)]"
    by (simp add: category_entries_def boards shelf_boards)
  then have code: "getAvailableOptions [''shelf'' \<mapsto> shelf] ''shelf'' ''boards'' (Some []) =
     (200, AvailableOptions
        [\<lparr>name = ''Nine'', price_delta = 45, choice_str_id = ''9''\<rparr>,
         \<lparr>name = ''Ten'', price_delta = 50, choice_str_id = ''10''\<rparr>,
         \<lparr>name = ''Wide'', price_delta = 5, choice_str_id = ''wide''\<rparr>])"
    using sat
    by (simp add: getAvailableOptions_def validate_present lookup_template_def
        availableOptions_def option_summary_def)
  show ?thesis
    using boards sat code by (simp add: option_summary_def)
qed

text \<open>
  C5. For a template, a target category and fixed selections, appending a rule to the
  template's rule set leaves a subsequence of the options offered before: the result
  shrinks or stays, and never grows.
\<close>

theorem availableOptions_antitone:
  "subseq
     (availableOptions (t\<lparr>compatibilityRules := compatibilityRules t @ [rule]\<rparr>)
        target_category_str_id currentSelections)
     (availableOptions t target_category_str_id currentSelections)"
proof (cases "rule_satisfied currentSelections rule")
  case True
  then show ?thesis by (simp add: availableOptions_def category_entries_def)
next
  case False
  then show ?thesis by (simp add: availableOptions_def)
qed

text \<open>
  With wood legs and the oak finish selected the chair offers both legs; a further rule
  that excludes the oak finish leaves none.
\<close>

theorem availableOptions_antitone_witness:
  "subseq
     (availableOptions (chair\<lparr>compatibilityRules := compatibilityRules chair @ [excludes_oak]\<rparr>)
        ''legs'' [(''legs_wood'', ''legs_wood''), (''finish_oak'', ''finish_oak'')])
     [\<lparr>name = ''Wood'', price_delta = 10, choice_str_id = ''legs_wood''\<rparr>,
      \<lparr>name = ''Steel'', price_delta = 15, choice_str_id = ''legs_steel''\<rparr>]
   \<and> availableOptions (chair\<lparr>compatibilityRules := compatibilityRules chair @ [excludes_oak]\<rparr>)
        ''legs'' [(''legs_wood'', ''legs_wood''), (''finish_oak'', ''finish_oak'')] = []"
proof -
  let ?sel = "[(''legs_wood'', ''legs_wood''), (''finish_oak'', ''finish_oak'')]"
  have legs: "category_entries chair ''legs'' =
      [(''legs_wood'', \<lparr>name = ''Wood'', price_delta = 10\<rparr>),
       (''legs_steel'', \<lparr>name = ''Steel'', price_delta = 15\<rparr>)]"
    by (simp add: category_entries_def chair_def own_entries_names not_an_index is_digit_def)
  have before: "availableOptions chair ''legs'' ?sel =
      [\<lparr>name = ''Wood'', price_delta = 10, choice_str_id = ''legs_wood''\<rparr>,
       \<lparr>name = ''Steel'', price_delta = 15, choice_str_id = ''legs_steel''\<rparr>]"
    using legs
    by (simp add: availableOptions_def chair_def option_summary_def
        requires_oak_def rule_satisfied_def selected_def)
  have after: "availableOptions
      (chair\<lparr>compatibilityRules := compatibilityRules chair @ [excludes_oak]\<rparr>) ''legs'' ?sel = []"
    by (simp add: availableOptions_def chair_def excludes_oak_def requires_oak_def
        rule_satisfied_def selected_def)
  from availableOptions_antitone [of chair excludes_oak "''legs''" ?sel]
  have "subseq
     (availableOptions (chair\<lparr>compatibilityRules := compatibilityRules chair @ [excludes_oak]\<rparr>)
        ''legs'' ?sel)
     [\<lparr>name = ''Wood'', price_delta = 10, choice_str_id = ''legs_wood''\<rparr>,
      \<lparr>name = ''Steel'', price_delta = 15, choice_str_id = ''legs_steel''\<rparr>]"
    by (simp only: before)
  with after show ?thesis
    by (simp only: simp_thms)
qed

text \<open>Route 1 appends the rule it is given to the rule set of the template.\<close>

lemma addCompatibilityRule_appends:
  assumes "rt \<noteq> []" and "p \<noteq> []" and "s \<noteq> []"
    and "lookup_template ts template_str_id \<noteq> Inherited"
  shows "addCompatibilityRule ts template_str_id (Some rt) (Some p) (Some s) =
           (ts(template_str_id \<mapsto>
              (ensured ts template_str_id)\<lparr>compatibilityRules :=
                 compatibilityRules (ensured ts template_str_id) @
                 [\<lparr>rule_type = rt, primary_choice_str_id = p, secondary_choice_str_id = s\<rparr>]\<rparr>),
            200, Message ''Compatibility rule added successfully.'')"
  using assms
  by (simp add: addCompatibilityRule_def validateRequestBody_def body_of_def Let_def
      split: stored.splits)

subsection \<open>Unknown templates\<close>

text \<open>
  C6 asks for the not-found error under every identifier that no mutation has named. On a
  fresh server the identifiers \<^verbatim>\<open>constructor\<close> and \<^verbatim>\<open>__proto__\<close> are found through the
  prototype of \<^verbatim>\<open>templates\<close>: line 53 does not answer 404 and line 57 throws.
\<close>

theorem inherited_template_throws:
  "getAvailableOptions Map.empty ''constructor'' ''legs'' (Some []) = (500, TypeError)
   \<and> getAvailableOptions Map.empty ''__proto__'' ''legs'' (Some []) = (500, TypeError)"
  by (simp add: getAvailableOptions_def validate_present lookup_template_def
      object_prototype_members_def)

text \<open>
  Under a name that the store lacks and \<^verbatim>\<open>Object.prototype\<close> does not define, the answer is
  the not-found error.
\<close>

lemma unknown_template_not_found:
  assumes "lookup_template ts template_str_id = Missing"
  shows "getAvailableOptions ts template_str_id target_category_str_id (Some currentSelections) =
           (404, Error ''Template not found.'')"
  using assms by (simp add: getAvailableOptions_def validate_present)

lemma fresh_server_not_found:
  "getAvailableOptions Map.empty ''table'' ''legs'' (Some []) = (404, Error ''Template not found.'')"
  using lookup_missing [of Map.empty "''table''"] unknown_template_not_found [of Map.empty "''table''"]
  by (simp add: object_prototype_members_def)

subsection \<open>Round trip of the options\<close>

text \<open>
  C8 asks for the round trip under every template identifier. On a fresh server the
  identifier \<^verbatim>\<open>__proto__\<close> is found through the prototype of \<^verbatim>\<open>templates\<close>: line 152 creates
  no template, line 156 throws, the store is as before, and the read throws at line 57.
\<close>

theorem inherited_template_round_trip:
  "addOptions Map.empty ''__proto__'' ''seats''
     (Some [(''x'', \<lparr>name = ''X'', price_delta = 5\<rparr>)]) = (Map.empty, 500, TypeError)
   \<and> getAvailableOptions
       (fst (addOptions Map.empty ''__proto__'' ''seats''
          (Some [(''x'', \<lparr>name = ''X'', price_delta = 5\<rparr>)])))
       ''__proto__'' ''seats'' (Some []) = (500, TypeError)"
  by (simp add: addOptions_def getAvailableOptions_def validate_present lookup_template_def
      object_prototype_members_def)

text \<open>
  Under the other identifiers the options come back: the category is overwritten, and with
  no selection every rule is satisfied.
\<close>

lemma options_round_trip:
  assumes "lookup_template ts t \<noteq> Inherited"
  shows "getAvailableOptions
     (fst (addOptions ts t c (Some [(''x'', \<lparr>name = ''X'', price_delta = 5\<rparr>)]))) t c (Some []) =
     (200, AvailableOptions [\<lparr>name = ''X'', price_delta = 5, choice_str_id = ''x''\<rparr>])"
proof -
  let ?opts = "[(''x'', \<lparr>name = ''X'', price_delta = 5\<rparr>)]"
  let ?t' = "(ensured ts t)\<lparr>options := AList.update c ?opts (options (ensured ts t))\<rparr>"
  have "fst (addOptions ts t c (Some ?opts)) t = Some ?t'"
    using assms by (simp add: addOptions_def validate_present Let_def split: stored.splits)
  then have store: "lookup_template (fst (addOptions ts t c (Some ?opts))) t = Own ?t'"
    by (rule lookup_own)
  have "own_entries ?opts = ?opts"
    by (simp add: own_entries_def not_an_index is_digit_def)
  then have "category_entries ?t' c = ?opts"
    by (simp add: category_entries_def update_conv')
  then have "availableOptions ?t' c [] = map option_summary ?opts"
    using no_selection_satisfies [of "compatibilityRules ?t'"]
    by (simp add: availableOptions_def)
  then show ?thesis
    using store by (simp add: getAvailableOptions_def validate_present option_summary_def)
qed

subsection \<open>The base price\<close>

text \<open>
  A base price other than 0 is stored, in a new shell when the template is unknown; under
  a member of \<^verbatim>\<open>Object.prototype\<close> the store stays as it is.
\<close>

lemma setBasePrice_truthy:
  "p \<noteq> 0 \<Longrightarrow> lookup_template ts template_str_id \<noteq> Inherited \<Longrightarrow>
     setBasePrice ts template_str_id (Some p) =
       (ts(template_str_id \<mapsto> (ensured ts template_str_id)\<lparr>base_price := p\<rparr>),
        200, Message ''Base price set successfully.'')"
  by (simp add: setBasePrice_def validateRequestBody_def body_of_def Let_def
      split: stored.splits)

lemma setBasePrice_inherited:
  "p \<noteq> 0 \<Longrightarrow> lookup_template ts template_str_id = Inherited \<Longrightarrow>
     setBasePrice ts template_str_id (Some p) =
       (ts, 200, Message ''Base price set successfully.'')"
  by (simp add: setBasePrice_def validateRequestBody_def body_of_def)

text \<open>
  C7 asks that every base price supplied is acknowledged and stored, the template being
  created when unknown. The base price 0 is falsy in \<^verbatim>\<open>!body[field]\<close>: on a fresh server
  the request is refused as if the field were missing, and no template is created.
\<close>

theorem setBasePrice_zero:
  "setBasePrice Map.empty ''chair'' (Some 0) =
     (Map.empty, 400, Error ''Missing required fields: base_price'')"
  by (simp add: setBasePrice_def validateRequestBody_def body_of_def)

subsection \<open>Order of the checks\<close>

text \<open>
  C10. A request to getAvailableOptions without \<^verbatim>\<open>currentSelections\<close>, or to
  validateConfiguration without \<^verbatim>\<open>selections\<close>, is answered with the validation error
  whatever the store holds: the field is checked before the template is looked up, so an
  unknown template does not give the not-found error here.
\<close>

theorem missing_field_before_lookup:
  "getAvailableOptions ts template_str_id target_category_str_id None =
     (400, Error ''Missing required fields: currentSelections'')
   \<and> validateConfiguration ts template_str_id None =
     (400, Error ''Missing required fields: selections'')"
  using validate_missing [of "''currentSelections''"] validate_missing [of "''selections''"]
  by (simp add: getAvailableOptions_def validateConfiguration_def)

text \<open>On a fresh server, which has no template at all.\<close>

theorem missing_field_before_lookup_witness:
  "Map.empty ''ghost'' = (None :: template option)
   \<and> getAvailableOptions Map.empty ''ghost'' ''legs'' None =
     (400, Error ''Missing required fields: currentSelections'')
   \<and> validateConfiguration Map.empty ''ghost'' None =
     (400, Error ''Missing required fields: selections'')"
  using missing_field_before_lookup [of Map.empty "''ghost''" "''legs''"]
  by simp

end
